theory Spec2Isabelle
  imports Complex_Main "HOL-Library.Code_Target_Numeral"
begin

section \<open>JavaScript values used by the handlers\<close>

text \<open>
  The backend is one Express program, \<^verbatim>\<open>starter-kit/index.js\<close>. Its handlers read
  strings from the query and the headers, JSON values from the body, and numbers
  obtained with \<^verbatim>\<open>Number\<close>. A JavaScript string is modelled by a HOL \<open>string\<close>, each
  \<open>char\<close> standing for one code unit below 256. A JavaScript number is one of NaN, the
  two infinities, or a finite double, kept as the rational it denotes.
\<close>

datatype jsnumber = NaN | Num rat | Infinity | NegInfinity

text \<open>\<^verbatim>\<open>Number.isNaN\<close>.\<close>

fun isNaN :: "jsnumber \<Rightarrow> bool" where
  "isNaN NaN = True"
| "isNaN _ = False"

subsection \<open>Rounding to a double\<close>

text \<open>
  A finite JavaScript number is an IEEE 754 double. \<open>toDouble\<close> rounds a rational to
  the nearest double, ties to the even significand: the quantum is \<open>2\<^sup>e\<^sup>-\<^sup>5\<^sup>2\<close> for the
  binary exponent \<open>e\<close> of the magnitude, never below -1022 (the subnormal range), and a
  magnitude that rounds to \<open>2\<^sup>1\<^sup>0\<^sup>2\<^sup>4\<close> or more is an infinity. The sign of zero is not
  kept.
\<close>

function log2floor :: "int \<Rightarrow> int" where
  "log2floor n = (if n < 2 then 0 else 1 + log2floor (n div 2))"
  by auto
termination
  by (relation "measure nat") auto

declare log2floor.simps [simp del]

text \<open>The binary exponent of a positive rational: \<open>2\<^sup>e \<le> a < 2\<^sup>e\<^sup>+\<^sup>1\<close>.\<close>

definition ilog2 :: "rat \<Rightarrow> int" where
  "ilog2 a = (if 1 \<le> a then log2floor \<lfloor>a\<rfloor>
              else - (1 + log2floor (\<lceil>1 / a\<rceil> - 1)))"

definition pow2 :: "int \<Rightarrow> rat" where
  "pow2 e = (if 0 \<le> e then 2 ^ nat e else 1 / 2 ^ nat (- e))"

definition roundHalfEven :: "rat \<Rightarrow> int" where
  "roundHalfEven y =
     (let n = \<lfloor>y\<rfloor>; f = y - of_int n in
      if f < 1 / 2 then n else if 1 / 2 < f then n + 1 else if even n then n else n + 1)"

definition quantum :: "rat \<Rightarrow> rat" where
  "quantum a = pow2 (max (ilog2 a) (- 1022) - 52)"

definition roundMagnitude :: "rat \<Rightarrow> rat" where
  "roundMagnitude a = of_int (roundHalfEven (a / quantum a)) * quantum a"

definition toDouble :: "rat \<Rightarrow> jsnumber" where
  "toDouble x =
     (if x = 0 then Num 0
      else if 0 < x then
        (let r = roundMagnitude x in if 2 ^ 1024 \<le> r then Infinity else Num r)
      else
        (let r = roundMagnitude (- x) in if 2 ^ 1024 \<le> r then NegInfinity else Num (- r)))"

text \<open>The sum of two numbers, as the operator \<^verbatim>\<open>+\<close> computes it.\<close>

fun jsAdd :: "jsnumber \<Rightarrow> jsnumber \<Rightarrow> jsnumber" where
  "jsAdd (Num a) (Num b) = toDouble (a + b)"
| "jsAdd NaN _ = NaN"
| "jsAdd _ NaN = NaN"
| "jsAdd Infinity NegInfinity = NaN"
| "jsAdd NegInfinity Infinity = NaN"
| "jsAdd Infinity _ = Infinity"
| "jsAdd _ Infinity = Infinity"
| "jsAdd NegInfinity _ = NegInfinity"
| "jsAdd _ NegInfinity = NegInfinity"

subsection \<open>\<^verbatim>\<open>String.prototype.split(',')\<close> and \<^verbatim>\<open>trim\<close>\<close>

text \<open>
  Splitting on a one-character separator: the pieces between the separators, in order,
  empty pieces kept. The empty string splits into one empty piece.
\<close>

fun split :: "char \<Rightarrow> string \<Rightarrow> string list" where
  "split sep [] = [[]]"
| "split sep (c # cs) =
     (if c = sep then [] # split sep cs
      else (case split sep cs of
              [] \<Rightarrow> [[c]]
            | p # ps \<Rightarrow> (c # p) # ps))"

text \<open>
  White space and line terminators of ECMAScript that are code units below 256:
  TAB, LF, VT, FF, CR, SP, NBSP.
\<close>

definition isWhiteSpace :: "char \<Rightarrow> bool" where
  "isWhiteSpace c =
     (c \<in> set [CHR 0x09, CHR 0x0A, CHR 0x0B, CHR 0x0C, CHR 0x0D, CHR 0x20, CHR 0xA0])"

definition trim :: "string \<Rightarrow> string" where
  "trim s = rev (dropWhile isWhiteSpace (rev (dropWhile isWhiteSpace s)))"

subsection \<open>\<^verbatim>\<open>Number(string)\<close>\<close>

text \<open>
  \<^verbatim>\<open>bbox.split(',').map(Number)\<close> converts each piece with ECMAScript's StringToNumber:
  the piece is trimmed; the empty string is 0; a \<^verbatim>\<open>0x\<close>, \<^verbatim>\<open>0o\<close> or \<^verbatim>\<open>0b\<close> prefix
  starts an unsigned integer in that radix; otherwise the piece is an optionally signed
  \<^verbatim>\<open>Infinity\<close> or decimal literal (digits, optional fraction, optional exponent).
  Everything else is NaN. The value of a literal is rounded to a double.
\<close>

definition digitOf :: "char \<Rightarrow> nat option" where
  "digitOf c =
     (let n = (of_char c :: nat) in
      if 48 \<le> n \<and> n \<le> 57 then Some (n - 48)
      else if 97 \<le> n \<and> n \<le> 102 then Some (n - 87)
      else if 65 \<le> n \<and> n \<le> 70 then Some (n - 55)
      else None)"

definition isDecimalDigit :: "char \<Rightarrow> bool" where
  "isDecimalDigit c = (let n = (of_char c :: nat) in 48 \<le> n \<and> n \<le> 57)"

fun digitsValue :: "nat \<Rightarrow> string \<Rightarrow> nat \<Rightarrow> nat option" where
  "digitsValue radix [] acc = Some acc"
| "digitsValue radix (c # cs) acc =
     (case digitOf c of
        None \<Rightarrow> None
      | Some d \<Rightarrow> if d < radix then digitsValue radix cs (acc * radix + d) else None)"

text \<open>One or more digits of the radix.\<close>

definition digitsLiteral :: "nat \<Rightarrow> string \<Rightarrow> nat option" where
  "digitsLiteral radix s = (if s = [] then None else digitsValue radix s 0)"

text \<open>The optional exponent part: nothing, or \<^verbatim>\<open>e\<close>/\<^verbatim>\<open>E\<close>, an optional sign and digits.\<close>

definition exponentPart :: "string \<Rightarrow> int option" where
  "exponentPart s =
     (case s of
        [] \<Rightarrow> Some 0
      | c # r \<Rightarrow>
          if c = CHR ''e'' \<or> c = CHR ''E'' then
            (case r of
               [] \<Rightarrow> None
             | sg # r' \<Rightarrow>
                 if sg = CHR ''+'' then map_option int (digitsLiteral 10 r')
                 else if sg = CHR ''-'' then map_option (\<lambda>v. - int v) (digitsLiteral 10 r')
                 else map_option int (digitsLiteral 10 r))
          else None)"

definition scale10 :: "rat \<Rightarrow> int \<Rightarrow> rat" where
  "scale10 m e = (if 0 \<le> e then m * 10 ^ nat e else m / 10 ^ nat (- e))"

definition unsignedDecimal :: "string \<Rightarrow> jsnumber" where
  "unsignedDecimal s =
     (if s = ''Infinity'' then Infinity
      else
        let ip = takeWhile isDecimalDigit s;
            r1 = dropWhile isDecimalDigit s;
            fp = (case r1 of [] \<Rightarrow> [] | c # t \<Rightarrow>
                    if c = CHR ''.'' then takeWhile isDecimalDigit t else []);
            r2 = (case r1 of [] \<Rightarrow> [] | c # t \<Rightarrow>
                    if c = CHR ''.'' then dropWhile isDecimalDigit t else r1)
        in if ip = [] \<and> fp = [] then NaN
           else (case (digitsValue 10 ip 0, digitsValue 10 fp 0, exponentPart r2) of
                   (Some i, Some f, Some e) \<Rightarrow>
                     toDouble (scale10 (of_nat i + of_nat f / 10 ^ length fp) e)
                 | _ \<Rightarrow> NaN))"

fun negate :: "jsnumber \<Rightarrow> jsnumber" where
  "negate NaN = NaN"
| "negate (Num r) = Num (- r)"
| "negate Infinity = NegInfinity"
| "negate NegInfinity = Infinity"

definition radixLiteral :: "nat \<Rightarrow> string \<Rightarrow> jsnumber" where
  "radixLiteral radix s =
     (case digitsLiteral radix s of None \<Rightarrow> NaN | Some v \<Rightarrow> toDouble (of_nat v))"

definition Number :: "string \<Rightarrow> jsnumber" where
  "Number s =
     (case trim s of
        [] \<Rightarrow> Num 0
      | c # r \<Rightarrow>
          if c = CHR ''+'' then unsignedDecimal r
          else if c = CHR ''-'' then negate (unsignedDecimal r)
          else if c = CHR ''0'' \<and> r \<noteq> [] \<and> (hd r = CHR ''x'' \<or> hd r = CHR ''X'')
            then radixLiteral 16 (tl r)
          else if c = CHR ''0'' \<and> r \<noteq> [] \<and> (hd r = CHR ''o'' \<or> hd r = CHR ''O'')
            then radixLiteral 8 (tl r)
          else if c = CHR ''0'' \<and> r \<noteq> [] \<and> (hd r = CHR ''b'' \<or> hd r = CHR ''B'')
            then radixLiteral 2 (tl r)
          else unsignedDecimal (c # r))"

section \<open>The camera catalog and its store\<close>

text \<open>
  One row of the table \<^verbatim>\<open>cameras\<close> of \<^verbatim>\<open>schema.sql\<close>. Columns without
  \<^verbatim>\<open>NOT NULL\<close> are optional; \<^verbatim>\<open>geom\<close> is a point, kept as its longitude and latitude.
  A timestamp is kept as a number.
\<close>

record camera =
  cam_id :: string
  cam_name :: string
  cam_role :: string
  stream_url :: string
  is_active :: "bool option"
  video_profile :: "string option"
  width :: "int option"
  height :: "int option"
  fps :: "int option"
  audio_enabled :: "bool option"
  last_status :: "string option"
  last_checked :: "int option"
  geom_lng :: rat
  geom_lat :: rat

datatype sqlval = SqlNull | SqlText string | SqlInt int | SqlBool bool | SqlFloat rat | SqlTime int

type_synonym row = "(string \<times> sqlval) list"

definition nullable :: "('a \<Rightarrow> sqlval) \<Rightarrow> 'a option \<Rightarrow> sqlval" where
  "nullable f v = (case v of None \<Rightarrow> SqlNull | Some x \<Rightarrow> f x)"

text \<open>
  The queries of \<^verbatim>\<open>index.js\<close> are SQL texts with numbered placeholders and a list of
  parameters. The model keeps their structure: the select list, the conditions joined
  by \<^verbatim>\<open>AND\<close>, each naming its placeholders, and the parameters.

  The column \<^verbatim>\<open>geom\<close> is declared \<^verbatim>\<open>GEOGRAPHY(POINT)\<close> (line 20 of \<^verbatim>\<open>schema.sql\<close>).
  A spatial argument is the column itself, \<^verbatim>\<open>geom\<close>, or a cast of it,
  \<^verbatim>\<open>geom::geometry\<close>.
\<close>

datatype geotype = Geometry | Geography

datatype geoexpr = GeomColumn | CastGeometry geoexpr

fun typeOf :: "geoexpr \<Rightarrow> geotype" where
  "typeOf GeomColumn = Geography"
| "typeOf (CastGeometry g) = Geometry"

text \<open>
  \<open>ST_X g\<close> and \<open>ST_Y g\<close> are \<^verbatim>\<open>ST_X(g)\<close> and \<^verbatim>\<open>ST_Y(g)\<close>;
  \<open>ContainsEnvelope i j k l srid g\<close> is
  \<^verbatim>\<open>ST_Contains(ST_MakeEnvelope($i, $j, $k, $l, srid), g)\<close>.
\<close>

datatype selexpr = Col string | ST_X geoexpr | ST_Y geoexpr

datatype condition =
    ContainsEnvelope nat nat nat nat int geoexpr
  | RoleEquals nat
  | IdEquals nat

datatype param = PNum jsnumber | PText string

record query =
  selectList :: "(selexpr \<times> string) list"
  conditions :: "condition list"
  params :: "param list"

text \<open>
  The value of a column of the table, by name; no value for a name it has not. A call of
  \<^verbatim>\<open>ST_X\<close> or \<^verbatim>\<open>ST_Y\<close> has a value only on a geometry.
\<close>

definition columnValue :: "camera \<Rightarrow> string \<Rightarrow> sqlval option" where
  "columnValue c n =
     map_of
       [(''id'', SqlText (cam_id c)),
        (''name'', SqlText (cam_name c)),
        (''role'', SqlText (cam_role c)),
        (''stream_url'', SqlText (stream_url c)),
        (''is_active'', nullable SqlBool (is_active c)),
        (''video_profile'', nullable SqlText (video_profile c)),
        (''width'', nullable SqlInt (width c)),
        (''height'', nullable SqlInt (height c)),
        (''fps'', nullable SqlInt (fps c)),
        (''audio_enabled'', nullable SqlBool (audio_enabled c)),
        (''last_status'', nullable SqlText (last_status c)),
        (''last_checked'', nullable SqlTime (last_checked c))] n"

fun evalSelexpr :: "camera \<Rightarrow> selexpr \<Rightarrow> sqlval option" where
  "evalSelexpr c (Col n) = columnValue c n"
| "evalSelexpr c (ST_X g) =
     (if typeOf g = Geometry then Some (SqlFloat (geom_lng c)) else None)"
| "evalSelexpr c (ST_Y g) =
     (if typeOf g = Geometry then Some (SqlFloat (geom_lat c)) else None)"

fun selectRow :: "(selexpr \<times> string) list \<Rightarrow> camera \<Rightarrow> row option" where
  "selectRow [] c = Some []"
| "selectRow ((e, a) # items) c =
     (case evalSelexpr c e of
        None \<Rightarrow> None
      | Some v \<Rightarrow> (case selectRow items c of
                     None \<Rightarrow> None
                   | Some r \<Rightarrow> Some ((a, v) # r)))"

text \<open>Placeholder \<^verbatim>\<open>$n\<close> is the n-th parameter, counted from 1.\<close>

definition placeholder :: "param list \<Rightarrow> nat \<Rightarrow> param option" where
  "placeholder ps n = (if 1 \<le> n \<and> n \<le> length ps then Some (ps ! (n - 1)) else None)"

text \<open>
  PostgreSQL resolves a function call by the types of its arguments before it reads a
  row. \<^verbatim>\<open>ST_X\<close>, \<^verbatim>\<open>ST_Y\<close> and \<^verbatim>\<open>ST_Contains\<close> take geometries, and a geography is not
  converted to a geometry without a cast: a call on the column \<^verbatim>\<open>geom\<close> itself does not
  resolve, and the statement fails. Lines 136, 137, 159 and 160 cast the column; line 127
  does not.
\<close>

fun resolvesSelexpr :: "selexpr \<Rightarrow> bool" where
  "resolvesSelexpr (Col n) = True"
| "resolvesSelexpr (ST_X g) = (typeOf g = Geometry)"
| "resolvesSelexpr (ST_Y g) = (typeOf g = Geometry)"

fun resolvesCondition :: "condition \<Rightarrow> bool" where
  "resolvesCondition (ContainsEnvelope i j k l srid g) = (typeOf g = Geometry)"
| "resolvesCondition (RoleEquals n) = True"
| "resolvesCondition (IdEquals n) = True"

definition resolves :: "query \<Rightarrow> bool" where
  "resolves q =
     (list_all (\<lambda>item. resolvesSelexpr (fst item)) (selectList q) \<and>
      list_all resolvesCondition (conditions q))"

text \<open>
  \<^verbatim>\<open>ST_Contains\<close> of an envelope and a point, where the call resolves. PostGIS builds the
  rectangle through the corners \<open>(x1, y1)\<close> and \<open>(x2, y2)\<close>, and \<^verbatim>\<open>ST_Contains\<close> holds
  when the point lies in the interior of the rectangle: a geometry does not contain
  what lies on its boundary.
\<close>

definition stContainsEnvelope :: "rat \<Rightarrow> rat \<Rightarrow> rat \<Rightarrow> rat \<Rightarrow> camera \<Rightarrow> bool" where
  "stContainsEnvelope x1 y1 x2 y2 c =
     (min x1 x2 < geom_lng c \<and> geom_lng c < max x1 x2 \<and>
      min y1 y2 < geom_lat c \<and> geom_lat c < max y1 y2)"

text \<open>
  A condition on one row. It has no value (the statement fails) when its call does not
  resolve, or when a placeholder has no parameter or one of the wrong type; an envelope
  with a coordinate that is not finite is not modelled and counts as such a failure.
\<close>

fun evalCondition :: "param list \<Rightarrow> camera \<Rightarrow> condition \<Rightarrow> bool option" where
  "evalCondition ps c (ContainsEnvelope i j k l srid g) =
     (if typeOf g \<noteq> Geometry then None
      else
        (case (placeholder ps i, placeholder ps j, placeholder ps k, placeholder ps l) of
           (Some (PNum (Num x1)), Some (PNum (Num y1)), Some (PNum (Num x2)), Some (PNum (Num y2))) \<Rightarrow>
             Some (stContainsEnvelope x1 y1 x2 y2 c)
         | _ \<Rightarrow> None))"
| "evalCondition ps c (RoleEquals n) =
     (case placeholder ps n of
        Some (PText r) \<Rightarrow> Some (cam_role c = r)
      | _ \<Rightarrow> None)"
| "evalCondition ps c (IdEquals n) =
     (case placeholder ps n of
        Some (PText i) \<Rightarrow> Some (cam_id c = i)
      | _ \<Rightarrow> None)"

fun evalWhere :: "param list \<Rightarrow> camera \<Rightarrow> condition list \<Rightarrow> bool option" where
  "evalWhere ps c [] = Some True"
| "evalWhere ps c (cond # conds) =
     (case evalCondition ps c cond of
        None \<Rightarrow> None
      | Some b \<Rightarrow> (case evalWhere ps c conds of
                     None \<Rightarrow> None
                   | Some b' \<Rightarrow> Some (b \<and> b')))"

fun selectRows :: "query \<Rightarrow> camera list \<Rightarrow> row list option" where
  "selectRows q [] = Some []"
| "selectRows q (c # cs) =
     (case evalWhere (params q) c (conditions q) of
        None \<Rightarrow> None
      | Some keep \<Rightarrow>
          (case selectRow (selectList q) c of
             None \<Rightarrow> None
           | Some r \<Rightarrow>
               (case selectRows q cs of
                  None \<Rightarrow> None
                | Some rs \<Rightarrow> Some (if keep then r # rs else rs))))"

text \<open>
  The store behind \<^verbatim>\<open>pool\<close>: the rows of the table, and whether it can be reached.
  \<^verbatim>\<open>pool.query\<close> rejects (the \<^verbatim>\<open>await\<close> raises) when the store cannot be reached,
  when a call of the statement does not resolve, or when the statement fails on a row.
\<close>

record db =
  catalog :: "camera list"
  reachable :: bool

datatype db_error = ConnectionError | StatementError

definition pool_query :: "db \<Rightarrow> query \<Rightarrow> db_error + row list" where
  "pool_query d q =
     (if \<not> reachable d then Inl ConnectionError
      else if \<not> resolves q then Inl StatementError
      else (case selectRows q (catalog d) of
              None \<Rightarrow> Inl StatementError
            | Some rs \<Rightarrow> Inr rs))"

section \<open>The catalog read API\<close>

datatype body = Rows "row list" | OneRow row | ErrorMessage string | NoBody

datatype response = Response nat body

text \<open>A JavaScript string or \<^verbatim>\<open>undefined\<close> in a condition: the non-empty strings are truthy.\<close>

definition truthy :: "string option \<Rightarrow> bool" where
  "truthy v = (case v of None \<Rightarrow> False | Some s \<Rightarrow> s \<noteq> [])"

definition listColumns :: "(selexpr \<times> string) list" where
  "listColumns =
     [(Col ''id'', ''id''), (Col ''name'', ''name''), (Col ''role'', ''role''),
      (Col ''width'', ''width''), (Col ''height'', ''height''), (Col ''fps'', ''fps''),
      (Col ''video_profile'', ''video_profile''), (Col ''audio_enabled'', ''audio_enabled''),
      (Col ''last_status'', ''last_status''), (Col ''last_checked'', ''last_checked''),
      (ST_X (CastGeometry GeomColumn), ''lng''), (ST_Y (CastGeometry GeomColumn), ''lat'')]"

definition singleColumns :: "(selexpr \<times> string) list" where
  "singleColumns =
     [(Col ''id'', ''id''), (Col ''name'', ''name''), (Col ''role'', ''role''),
      (Col ''stream_url'', ''stream_url''),
      (Col ''width'', ''width''), (Col ''height'', ''height''), (Col ''fps'', ''fps''),
      (Col ''video_profile'', ''video_profile''), (Col ''audio_enabled'', ''audio_enabled''),
      (Col ''last_status'', ''last_status''), (Col ''last_checked'', ''last_checked''),
      (ST_X (CastGeometry GeomColumn), ''lng''), (ST_Y (CastGeometry GeomColumn), ''lat'')]"

text \<open>
  \<^verbatim>\<open>GET /api/cameras\<close>, lines 112 to 146. \<open>bbox\<close> and \<open>role\<close> are the two fields of
  \<^verbatim>\<open>req.query\<close>, each a string or absent. The result is the list of statements sent to
  the store and the response.

  The first step is the \<^verbatim>\<open>if (bbox)\<close> block: it either answers 400 or extends the
  parameters and conditions.
\<close>

definition bboxStep :: "string option \<Rightarrow> response + (param list \<times> condition list)" where
  "bboxStep bbox =
     (if truthy bbox then
        (let parts = map Number (split CHR '','' (the bbox)) in
         if length parts \<noteq> 4 \<or> list_ex isNaN parts then
           Inl (Response 400
                  (ErrorMessage ''bbox must be four numeric values: minLng,minLat,maxLng,maxLat''))
         else
           (let minLng = parts ! 0; minLat = parts ! 1; maxLng = parts ! 2; maxLat = parts ! 3 in
            Inr ([PNum minLng, PNum minLat, PNum maxLng, PNum maxLat],
                 [ContainsEnvelope 1 2 3 4 4326 GeomColumn])))
      else Inr ([], []))"

definition roleStep ::
  "string option \<Rightarrow> param list \<times> condition list \<Rightarrow> param list \<times> condition list" where
  "roleStep role pc =
     (case pc of (ps, conds) \<Rightarrow>
        if truthy role then
          (let ps' = ps @ [PText (the role)] in (ps', conds @ [RoleEquals (length ps')]))
        else (ps, conds))"

definition listCameras :: "db \<Rightarrow> string option \<Rightarrow> string option \<Rightarrow> query list \<times> response" where
  "listCameras d bbox role =
     (case bboxStep bbox of
        Inl resp \<Rightarrow> ([], resp)
      | Inr pc \<Rightarrow>
          (case roleStep role pc of (ps, conds) \<Rightarrow>
             (let q = \<lparr>selectList = listColumns, conditions = conds, params = ps\<rparr> in
              ([q],
               (case pool_query d q of
                  Inl err \<Rightarrow> Response 500 (ErrorMessage ''internal error'')
                | Inr rows \<Rightarrow> Response 200 (Rows rows))))))"

text \<open>\<^verbatim>\<open>GET /api/cameras/:id\<close>, lines 153 to 173.\<close>

definition getCamera :: "db \<Rightarrow> string \<Rightarrow> query list \<times> response" where
  "getCamera d ident =
     (let q = \<lparr>selectList = singleColumns, conditions = [IdEquals 1], params = [PText ident]\<rparr> in
      ([q],
       (case pool_query d q of
          Inl err \<Rightarrow> Response 500 (ErrorMessage ''internal error'')
        | Inr rows \<Rightarrow>
            (case rows of
               [] \<Rightarrow> Response 404 (ErrorMessage ''camera not found'')
             | r # rest \<Rightarrow> Response 200 (OneRow r)))))"

section \<open>The client context\<close>

text \<open>
  What a telemetry handler reads of a request: the header \<^verbatim>\<open>x-forwarded-for\<close>, the
  peer address \<^verbatim>\<open>req.socket?.remoteAddress\<close>, the header \<^verbatim>\<open>user-agent\<close>, and the body
  fields \<^verbatim>\<open>camera_id\<close> and \<^verbatim>\<open>seconds\<close> of the parsed JSON object. An absent header
  or field is \<open>None\<close>. \<^verbatim>\<open>camera_id\<close> is any JSON value; \<^verbatim>\<open>seconds\<close>, when present,
  is a JSON number within the range of the doubles, given by the value of its literal.
\<close>

datatype json =
    JNull
  | JBool bool
  | JNum rat
  | JStr string
  | JArr "json list"
  | JObj "(string \<times> json) list"

record request =
  x_forwarded_for :: "string option"
  remoteAddress :: "string option"
  user_agent :: "string option"
  camera_id :: "json option"
  seconds :: "rat option"

text \<open>JavaScript truthiness of a body field: \<^verbatim>\<open>!camera_id\<close> is its negation.\<close>

fun truthyJson :: "json option \<Rightarrow> bool" where
  "truthyJson None = False"
| "truthyJson (Some JNull) = False"
| "truthyJson (Some (JBool b)) = b"
| "truthyJson (Some (JNum r)) = (r \<noteq> 0)"
| "truthyJson (Some (JStr s)) = (s \<noteq> [])"
| "truthyJson (Some (JArr xs)) = True"
| "truthyJson (Some (JObj kvs)) = True"

text \<open>\<^verbatim>\<open>x || d\<close> for a string or \<^verbatim>\<open>undefined\<close> \<open>x\<close>.\<close>

definition orElse :: "string option \<Rightarrow> string \<Rightarrow> string" where
  "orElse x d = (case x of None \<Rightarrow> d | Some s \<Rightarrow> if s \<noteq> [] then s else d)"

text \<open>\<^verbatim>\<open>getClientIp\<close>, lines 68 to 77.\<close>

definition getClientIp :: "request \<Rightarrow> string" where
  "getClientIp req =
     (case x_forwarded_for req of
        Some xff \<Rightarrow>
          if length xff > 0 then
            (let ips = map trim (split CHR '','' xff) in hd ips)
          else orElse (remoteAddress req) []
      | None \<Rightarrow> orElse (remoteAddress req) [])"

text \<open>
  The GeoIP reader, when loaded: a lookup either raises or returns a response whose
  \<^verbatim>\<open>country.isoCode\<close> is a string or missing. \<^verbatim>\<open>getCountry\<close>, lines 80 to 90.
\<close>

datatype geoLookup = LookupRaises | LookupReturns "string option"

definition getCountry :: "(string \<Rightarrow> geoLookup) option \<Rightarrow> string \<Rightarrow> string" where
  "getCountry reader ip =
     (case reader of
        None \<Rightarrow> ''ZZ''
      | Some country \<Rightarrow>
          if ip \<noteq> [] then
            (case country ip of
               LookupRaises \<Rightarrow> ''ZZ''
             | LookupReturns isoCode \<Rightarrow> orElse isoCode ''ZZ'')
          else ''ZZ'')"

text \<open>
  \<^verbatim>\<open>parseUA\<close>, lines 93 to 103. The user-agent parser is a library: it is a parameter,
  a function from the header to the pair \<^verbatim>\<open>ua.browser.name\<close>, \<^verbatim>\<open>ua.os.name\<close>, each a
  string or \<^verbatim>\<open>undefined\<close>.
\<close>

definition knownBrowsers :: "string list" where
  "knownBrowsers = [''Chrome'', ''Firefox'', ''Safari'', ''Edge'']"

definition knownOS :: "string list" where
  "knownOS = [''Windows'', ''macOS'', ''iOS'', ''Android'', ''Linux'']"

text \<open>The two steps applied to each name: \<^verbatim>\<open>name || 'Other'\<close>, then the allow-list.\<close>

definition normalise :: "string list \<Rightarrow> string option \<Rightarrow> string" where
  "normalise known name =
     (let n = orElse name ''Other'' in if n \<in> set known then n else ''Other'')"

record uaLabels =
  browser :: string
  os :: string

definition parseUA :: "(string option \<Rightarrow> string option \<times> string option) \<Rightarrow> request \<Rightarrow> uaLabels" where
  "parseUA parser req =
     (let ua = parser (user_agent req) in
      \<lparr>browser = normalise knownBrowsers (fst ua), os = normalise knownOS (snd ua)\<rparr>)"

section \<open>The telemetry instruments\<close>

text \<open>
  A \<^verbatim>\<open>prom-client\<close> instrument maps a tuple of label texts to a number; a tuple appears
  at its first update, starting from 0. The library takes the text of each label value,
  so the text of a JSON value is a parameter \<open>labelText\<close> of the handlers.

  The view-start counter and the gauge move by 1 at each call: they hold whole numbers,
  which a double keeps exactly up to \<open>2\<^sup>5\<^sup>3\<close>, and their values are kept as rationals.
  The watched-seconds counter adds what the caller sends: its values are JavaScript
  numbers, and its sums are rounded.
\<close>

type_synonym 'k instrument = "'k \<Rightarrow> rat option"

definition valueOf :: "'k instrument \<Rightarrow> 'k \<Rightarrow> rat" where
  "valueOf m k = (case m k of None \<Rightarrow> 0 | Some v \<Rightarrow> v)"

type_synonym 'k accumulator = "'k \<Rightarrow> jsnumber option"

definition numberOf :: "'k accumulator \<Rightarrow> 'k \<Rightarrow> jsnumber" where
  "numberOf m k = (case m k of None \<Rightarrow> Num 0 | Some v \<Rightarrow> v)"

datatype js_error = DecreaseCounter

text \<open>\<^verbatim>\<open>Counter.inc(labels)\<close>, without a value: it adds 1.\<close>

definition counterInc :: "'k instrument \<Rightarrow> 'k \<Rightarrow> 'k instrument" where
  "counterInc m k = m(k \<mapsto> valueOf m k + 1)"

text \<open>
  \<^verbatim>\<open>Counter.inc(labels, value)\<close> with a finite number, which is the double of the
  value sent: a negative one raises ("It is not possible to decrease a counter") and
  changes nothing; otherwise the stored number becomes its sum with the value, as
  \<^verbatim>\<open>+=\<close> computes it. A value beyond the range of the doubles is not finite once parsed
  and is outside this model.
\<close>

fun isNegative :: "jsnumber \<Rightarrow> bool" where
  "isNegative (Num r) = (r < 0)"
| "isNegative NegInfinity = True"
| "isNegative _ = False"

definition counterAdd :: "'k accumulator \<Rightarrow> 'k \<Rightarrow> rat \<Rightarrow> js_error + 'k accumulator" where
  "counterAdd m k x =
     (let v = toDouble x in
      if isNegative v then Inl DecreaseCounter
      else Inr (m(k \<mapsto> jsAdd (numberOf m k) v)))"

text \<open>\<^verbatim>\<open>Gauge.inc(labels)\<close> and \<^verbatim>\<open>Gauge.dec(labels)\<close>.\<close>

definition gaugeInc :: "'k instrument \<Rightarrow> 'k \<Rightarrow> 'k instrument" where
  "gaugeInc m k = m(k \<mapsto> valueOf m k + 1)"

definition gaugeDec :: "'k instrument \<Rightarrow> 'k \<Rightarrow> 'k instrument" where
  "gaugeDec m k = m(k \<mapsto> valueOf m k - 1)"

text \<open>The state of the process that the telemetry handlers read and update.\<close>

record server =
  viewStartCounter :: "(string \<times> string \<times> string \<times> string) instrument"
  viewersGauge :: "(string \<times> string) instrument"
  viewSecondsCounter :: "(string \<times> string) accumulator"
  geoReader :: "(string \<Rightarrow> geoLookup) option"

text \<open>The libraries a handler calls, as parameters.\<close>

record libs =
  uaParser :: "string option \<Rightarrow> string option \<times> string option"
  labelText :: "json \<Rightarrow> string"

text \<open>
  What a handler leaves: a response it sent, or an exception that escapes it (Express
  then answers with its error handler).
\<close>

datatype outcome = Sent response | Raised js_error

section \<open>The telemetry write API\<close>

text \<open>\<^verbatim>\<open>POST /view-start\<close>, lines 181 to 192.\<close>

definition viewStart :: "libs \<Rightarrow> server \<Rightarrow> request \<Rightarrow> server \<times> outcome" where
  "viewStart lib s req =
     (if \<not> truthyJson (camera_id req) then
        (s, Sent (Response 400 (ErrorMessage ''camera_id is required'')))
      else
        (let cam = labelText lib (the (camera_id req));
             ip = getClientIp req;
             country = getCountry (geoReader s) ip;
             ua = parseUA (uaParser lib) req
         in (s\<lparr>viewStartCounter :=
                  counterInc (viewStartCounter s) (cam, country, browser ua, os ua),
                viewersGauge := gaugeInc (viewersGauge s) (cam, country)\<rparr>,
             Sent (Response 204 NoBody))))"

text \<open>\<^verbatim>\<open>POST /heartbeat\<close>, lines 200 to 209: \<^verbatim>\<open>seconds\<close> defaults to 10 when absent.\<close>

definition heartbeat :: "libs \<Rightarrow> server \<Rightarrow> request \<Rightarrow> server \<times> outcome" where
  "heartbeat lib s req =
     (let secs = (case seconds req of None \<Rightarrow> 10 | Some v \<Rightarrow> v) in
      if \<not> truthyJson (camera_id req) then
        (s, Sent (Response 400 (ErrorMessage ''camera_id is required'')))
      else
        (let cam = labelText lib (the (camera_id req));
             ip = getClientIp req;
             country = getCountry (geoReader s) ip
         in case counterAdd (viewSecondsCounter s) (cam, country) secs of
              Inl err \<Rightarrow> (s, Raised err)
            | Inr watched \<Rightarrow>
                (s\<lparr>viewSecondsCounter := watched\<rparr>, Sent (Response 204 NoBody))))"

text \<open>\<^verbatim>\<open>POST /view-end\<close>, lines 216 to 225.\<close>

definition viewEnd :: "libs \<Rightarrow> server \<Rightarrow> request \<Rightarrow> server \<times> outcome" where
  "viewEnd lib s req =
     (if \<not> truthyJson (camera_id req) then
        (s, Sent (Response 400 (ErrorMessage ''camera_id is required'')))
      else
        (let cam = labelText lib (the (camera_id req));
             ip = getClientIp req;
             country = getCountry (geoReader s) ip
         in (s\<lparr>viewersGauge := gaugeDec (viewersGauge s) (cam, country)\<rparr>,
             Sent (Response 204 NoBody))))"

text \<open>
  A sequence of telemetry calls, handled one after the other. No handler assigns
  \<^verbatim>\<open>geoReader\<close>: the calls of a sequence see the reader of the state they start from.
\<close>

datatype event = ViewStart request | Heartbeat request | ViewEnd request

fun handle :: "libs \<Rightarrow> server \<Rightarrow> event \<Rightarrow> server \<times> outcome" where
  "handle lib s (ViewStart req) = viewStart lib s req"
| "handle lib s (Heartbeat req) = heartbeat lib s req"
| "handle lib s (ViewEnd req) = viewEnd lib s req"

fun run :: "libs \<Rightarrow> server \<Rightarrow> event list \<Rightarrow> server" where
  "run lib s [] = s"
| "run lib s (ev # evs) = run lib (fst (handle lib s ev)) evs"

text \<open>
  The label tuples a request resolves to under a given GeoIP reader, and the calls of a
  sequence that are accepted and resolve to a given pair \<open>(camera, country)\<close>.
\<close>

definition gaugeKey ::
  "libs \<Rightarrow> (string \<Rightarrow> geoLookup) option \<Rightarrow> request \<Rightarrow> string \<times> string" where
  "gaugeKey lib reader req =
     (labelText lib (the (camera_id req)), getCountry reader (getClientIp req))"

definition startKey ::
  "libs \<Rightarrow> (string \<Rightarrow> geoLookup) option \<Rightarrow> request \<Rightarrow> string \<times> string \<times> string \<times> string" where
  "startKey lib reader req =
     (labelText lib (the (camera_id req)), getCountry reader (getClientIp req),
      browser (parseUA (uaParser lib) req), os (parseUA (uaParser lib) req))"

fun startsFor ::
  "libs \<Rightarrow> (string \<Rightarrow> geoLookup) option \<Rightarrow> string \<times> string \<Rightarrow> event \<Rightarrow> bool" where
  "startsFor lib reader k (ViewStart req) =
     (truthyJson (camera_id req) \<and> gaugeKey lib reader req = k)"
| "startsFor lib reader k _ = False"

fun endsFor ::
  "libs \<Rightarrow> (string \<Rightarrow> geoLookup) option \<Rightarrow> string \<times> string \<Rightarrow> event \<Rightarrow> bool" where
  "endsFor lib reader k (ViewEnd req) =
     (truthyJson (camera_id req) \<and> gaugeKey lib reader req = k)"
| "endsFor lib reader k _ = False"

section \<open>Rows and sample data\<close>

text \<open>The row of a camera in the list form, and in the single form.\<close>

definition listRow :: "camera \<Rightarrow> row" where
  "listRow c =
     [(''id'', SqlText (cam_id c)), (''name'', SqlText (cam_name c)),
      (''role'', SqlText (cam_role c)),
      (''width'', nullable SqlInt (width c)), (''height'', nullable SqlInt (height c)),
      (''fps'', nullable SqlInt (fps c)),
      (''video_profile'', nullable SqlText (video_profile c)),
      (''audio_enabled'', nullable SqlBool (audio_enabled c)),
      (''last_status'', nullable SqlText (last_status c)),
      (''last_checked'', nullable SqlTime (last_checked c)),
      (''lng'', SqlFloat (geom_lng c)), (''lat'', SqlFloat (geom_lat c))]"

definition singleRow :: "camera \<Rightarrow> row" where
  "singleRow c =
     [(''id'', SqlText (cam_id c)), (''name'', SqlText (cam_name c)),
      (''role'', SqlText (cam_role c)), (''stream_url'', SqlText (stream_url c)),
      (''width'', nullable SqlInt (width c)), (''height'', nullable SqlInt (height c)),
      (''fps'', nullable SqlInt (fps c)),
      (''video_profile'', nullable SqlText (video_profile c)),
      (''audio_enabled'', nullable SqlBool (audio_enabled c)),
      (''last_status'', nullable SqlText (last_status c)),
      (''last_checked'', nullable SqlTime (last_checked c)),
      (''lng'', SqlFloat (geom_lng c)), (''lat'', SqlFloat (geom_lat c))]"

text \<open>
  The catalog of the specification's scenario: \<open>cam1\<close> at (10, 20) with role
  \<open>traffic\<close>, \<open>cam2\<close> at (50, 60) with role \<open>perimeter\<close>. A second catalog adds a
  camera whose role differs from \<open>traffic\<close> only in case, and one with an empty role.
\<close>

definition cam1 :: camera where
  "cam1 = \<lparr>cam_id = ''cam1'', cam_name = ''North gate'', cam_role = ''traffic'',
            stream_url = ''rtsp://10.0.0.1/sub'', is_active = Some True,
            video_profile = Some ''H264 Main'', width = Some 640, height = Some 480,
            fps = Some 15, audio_enabled = Some False, last_status = None,
            last_checked = None, geom_lng = 10, geom_lat = 20\<rparr>"

definition cam2 :: camera where
  "cam2 = \<lparr>cam_id = ''cam2'', cam_name = ''Fence'', cam_role = ''perimeter'',
            stream_url = ''rtsp://10.0.0.2/sub'', is_active = Some True,
            video_profile = Some ''H264 Main'', width = Some 640, height = Some 480,
            fps = Some 15, audio_enabled = Some False, last_status = Some ''up'',
            last_checked = Some 1700000000, geom_lng = 50, geom_lat = 60\<rparr>"

definition cam3 :: camera where
  "cam3 = cam1\<lparr>cam_id := ''cam3'', cam_name := ''Junction'', cam_role := ''Traffic'',
                 stream_url := ''rtsp://10.0.0.3/sub'', geom_lng := 12, geom_lat := 22\<rparr>"

definition cam4 :: camera where
  "cam4 = cam2\<lparr>cam_id := ''cam4'', cam_name := ''Spare'', cam_role := [],
                 stream_url := ''rtsp://10.0.0.4/sub'', geom_lng := 51, geom_lat := 61\<rparr>"

definition demoDb :: db where
  "demoDb = \<lparr>catalog = [cam1, cam2], reachable = True\<rparr>"

definition caseDb :: db where
  "caseDb = \<lparr>catalog = [cam1, cam2, cam3, cam4], reachable = True\<rparr>"

text \<open>
  A server that has recorded nothing and has no GeoIP reader, sample libraries (a parser
  that knows one user agent, the text of a JSON string being the string), and a viewer
  of a camera.
\<close>

definition freshServer :: server where
  "freshServer =
     \<lparr>viewStartCounter = Map.empty, viewersGauge = Map.empty,
      viewSecondsCounter = Map.empty, geoReader = None\<rparr>"

definition demoLibs :: libs where
  "demoLibs =
     \<lparr>uaParser = (\<lambda>ua. if ua = Some ''Mozilla/5.0 (X11; Linux x86_64) Chrome/120.0''
                        then (Some ''Chrome'', Some ''Linux'')
                        else if ua = None then (None, None)
                        else (Some ''curl'', None)),
      labelText = (\<lambda>j. case j of JStr s \<Rightarrow> s | _ \<Rightarrow> ''[json]'')\<rparr>"

definition viewer :: "json option \<Rightarrow> rat option \<Rightarrow> request" where
  "viewer cam secs =
     \<lparr>x_forwarded_for = None, remoteAddress = Some ''203.0.113.7'',
      user_agent = Some ''Mozilla/5.0 (X11; Linux x86_64) Chrome/120.0'',
      camera_id = cam, seconds = secs\<rparr>"

text \<open>
  A sequence of calls: two viewers of \<open>cam1\<close> start and end, interleaved with a viewer of
  \<open>cam2\<close> and a heartbeat.
\<close>

definition demoCalls :: "event list" where
  "demoCalls =
     [ViewStart (viewer (Some (JStr ''cam1'')) None), ViewStart (viewer (Some (JStr ''cam2'')) None),
      ViewStart (viewer (Some (JStr ''cam1'')) None), Heartbeat (viewer (Some (JStr ''cam1'')) None),
      ViewEnd (viewer (Some (JStr ''cam1'')) None), ViewEnd (viewer (Some (JStr ''cam2'')) None),
      ViewEnd (viewer (Some (JStr ''cam1'')) None)]"

section \<open>Properties of the rounding\<close>

lemma log2floor_nonneg: "0 \<le> log2floor n"
  by (induction n rule: log2floor.induct) (simp add: log2floor.simps)

lemma log2floor_bounds:
  "1 \<le> n \<Longrightarrow> 2 ^ nat (log2floor n) \<le> n \<and> n < 2 * 2 ^ nat (log2floor n)"
proof (induction n rule: log2floor.induct)
  case (1 n)
  show ?case
  proof (cases "n < 2")
    case True
    with "1.prems" have "n = 1" by simp
    then show ?thesis by (simp add: log2floor.simps)
  next
    case False
    then have m: "1 \<le> n div 2" by simp
    from "1.IH" [OF False m]
    have lo: "2 ^ nat (log2floor (n div 2)) \<le> n div 2"
      and hi: "n div 2 < 2 * 2 ^ nat (log2floor (n div 2))" by simp_all
    have e: "nat (1 + log2floor (n div 2)) = Suc (nat (log2floor (n div 2)))"
      using log2floor_nonneg [of "n div 2"] by simp
    have "2 * (n div 2) \<le> n" and "n < 2 * (n div 2) + 2" by simp_all
    with lo hi have "2 * 2 ^ nat (log2floor (n div 2)) \<le> n"
      and "n < 2 * (2 * 2 ^ nat (log2floor (n div 2)))" by linarith+
    with False e show ?thesis by (simp add: log2floor.simps [of n])
  qed
qed

lemma roundHalfEven_of_int: "roundHalfEven (of_int m) = m"
  by (simp add: roundHalfEven_def)


text \<open>A whole number up to \<open>2\<^sup>5\<^sup>3\<close> is a double.\<close>

lemma roundMagnitude_of_int:
  assumes "1 \<le> n" and "n \<le> 2 ^ 53"
  shows "roundMagnitude (of_int n) = of_int n"
proof -
  define e where "e = log2floor n"
  have e0: "0 \<le> e" by (simp add: e_def log2floor_nonneg)
  have lo: "2 ^ nat e \<le> n" and hi: "n < 2 * 2 ^ nat e"
    using log2floor_bounds [OF assms(1)] by (simp_all add: e_def)
  have il: "ilog2 (of_int n) = e"
    using assms(1) by (simp add: ilog2_def e_def)
  have one: "(1::int) < 2" by simp
  have "(2::int) ^ nat e \<le> 2 ^ 53" using lo assms(2) by linarith
  then have e53: "nat e \<le> 53" by (rule power_le_imp_le_exp [OF one])
  have q: "quantum (of_int n) = pow2 (e - 52)"
    using e0 by (simp add: quantum_def il max_def)
  show ?thesis
  proof (cases "e \<le> 52")
    case True
    then have p: "pow2 (e - 52) = 1 / 2 ^ nat (52 - e)"
      by (cases "e = 52") (simp_all add: pow2_def)
    have "of_int n / pow2 (e - 52) = (of_int (n * 2 ^ nat (52 - e)) :: rat)"
      by (simp add: p)
    then have "roundHalfEven (of_int n / pow2 (e - 52)) = n * 2 ^ nat (52 - e)"
      by (simp only: roundHalfEven_of_int)
    then show ?thesis
      by (simp add: roundMagnitude_def q) (simp add: p)
  next
    case False
    with e53 e0 have e: "e = 53" by linarith
    with lo assms(2) have n: "n = 2 ^ 53" by simp
    have "of_int n / pow2 (e - 52) = (of_int (2 ^ 52) :: rat)"
      by (simp add: e n pow2_def)
    then have "roundHalfEven (of_int n / pow2 (e - 52)) = 2 ^ 52"
      by (simp only: roundHalfEven_of_int)
    then show ?thesis
      by (simp add: roundMagnitude_def q) (simp add: e n pow2_def)
  qed
qed

lemma toDouble_of_nat:
  assumes "n \<le> 2 ^ 53"
  shows "toDouble (of_nat n) = Num (of_nat n)"
proof (cases "n = 0")
  case True
  then show ?thesis by (simp add: toDouble_def)
next
  case False
  then have "1 \<le> int n" by simp
  moreover have "int n \<le> 2 ^ 53"
    using assms by (metis of_nat_le_iff of_nat_numeral of_nat_power)
  ultimately have r: "roundMagnitude (of_int (int n)) = of_int (int n)"
    by (rule roundMagnitude_of_int)
  have "(of_nat n :: rat) \<le> 2 ^ 53"
    using assms by (metis of_nat_le_iff of_nat_numeral of_nat_power)
  also have "\<dots> < 2 ^ 1024" by simp
  finally have "\<not> (2 ^ 1024 \<le> (of_nat n :: rat))" by simp
  with False r show ?thesis by (simp add: toDouble_def)
qed

lemma toDouble_numeral:
  "numeral k \<le> (2::nat) ^ 53 \<Longrightarrow> toDouble (numeral k) = Num (numeral k)"
  using toDouble_of_nat [of "numeral k"] by simp

lemma toDouble_zero: "toDouble 0 = Num 0"
  by (simp add: toDouble_def)

lemma toDouble_one: "toDouble 1 = Num 1"
  using toDouble_of_nat [of 1] by simp

lemma toDouble_minus_of_nat:
  assumes "n \<le> 2 ^ 53"
  shows "toDouble (- of_nat n) = Num (- of_nat n)"
proof (cases "n = 0")
  case True
  then show ?thesis by (simp add: toDouble_def)
next
  case False
  then have "1 \<le> int n" by simp
  moreover have "int n \<le> 2 ^ 53"
    using assms by (metis of_nat_le_iff of_nat_numeral of_nat_power)
  ultimately have r: "roundMagnitude (of_int (int n)) = of_int (int n)"
    by (rule roundMagnitude_of_int)
  have "(of_nat n :: rat) \<le> 2 ^ 53"
    using assms by (metis of_nat_le_iff of_nat_numeral of_nat_power)
  also have "\<dots> < 2 ^ 1024" by simp
  finally have "\<not> (2 ^ 1024 \<le> (of_nat n :: rat))" by simp
  with False r show ?thesis by (simp add: toDouble_def)
qed

lemma toDouble_minus_numeral:
  "numeral k \<le> (2::nat) ^ 53 \<Longrightarrow> toDouble (- numeral k) = Num (- numeral k)"
  using toDouble_minus_of_nat [of "numeral k"] by simp






section \<open>Properties of the catalog read API\<close>

subsection \<open>The store and the two steps of the list handler\<close>

lemmas Number_simps =
  Number_def trim_def isWhiteSpace_def unsignedDecimal_def isDecimalDigit_def digitOf_def
  exponentPart_def scale10_def digitsLiteral_def radixLiteral_def
  toDouble_zero toDouble_one toDouble_numeral

lemmas demo_simps =
  demoDb_def cam1_def cam2_def listRow_def singleRow_def nullable_def
  listCameras_def getCamera_def bboxStep_def roleStep_def truthy_def pool_query_def
  resolves_def listColumns_def singleColumns_def columnValue_def placeholder_def

lemma selectRow_listColumns: "selectRow listColumns c = Some (listRow c)"
  by (simp add: listColumns_def listRow_def columnValue_def)

lemma selectRow_singleColumns: "selectRow singleColumns c = Some (singleRow c)"
  by (simp add: singleColumns_def singleRow_def columnValue_def)

text \<open>Both select lists cast the column before \<^verbatim>\<open>ST_X\<close> and \<^verbatim>\<open>ST_Y\<close>.\<close>

lemma select_lists_resolve:
  "list_all (\<lambda>item. resolvesSelexpr (fst item)) listColumns"
  "list_all (\<lambda>item. resolvesSelexpr (fst item)) singleColumns"
  by (simp_all add: listColumns_def singleColumns_def)

text \<open>
  When the statement resolves and every condition has a value on every row, the
  statement returns the projected rows that satisfy the conditions, in the order of the
  table.
\<close>

lemma selectRows_filter:
  assumes "\<And>c. c \<in> set cs \<Longrightarrow> evalWhere (params q) c (conditions q) = Some (P c)"
    and "\<And>c. c \<in> set cs \<Longrightarrow> selectRow (selectList q) c = Some (f c)"
  shows "selectRows q cs = Some (map f (filter P cs))"
  using assms by (induction cs) auto

lemma pool_query_filter:
  assumes "reachable d" and "resolves q"
    and "\<And>c. evalWhere (params q) c (conditions q) = Some (P c)"
    and "\<And>c. selectRow (selectList q) c = Some (f c)"
  shows "pool_query d q = Inr (map f (filter P (catalog d)))"
  using assms by (simp add: pool_query_def selectRows_filter)

text \<open>A statement with the envelope condition of line 127 is answered by no rows.\<close>

lemma pool_query_envelope_fails:
  assumes "ContainsEnvelope i j k l srid GeomColumn \<in> set (conditions q)"
  shows "\<exists>err. pool_query d q = Inl err"
proof -
  have "\<not> resolvesCondition (ContainsEnvelope i j k l srid GeomColumn)" by simp
  with assms have "\<not> list_all resolvesCondition (conditions q)"
    unfolding list_all_iff by blast
  then have "\<not> resolves q" by (simp add: resolves_def)
  then show ?thesis by (simp add: pool_query_def)
qed

text \<open>A split has at least one piece, so \<^verbatim>\<open>ips[0]\<close> in \<^verbatim>\<open>getClientIp\<close> is always there.\<close>

lemma split_not_Nil: "split sep s \<noteq> []"
  by (induction s) (auto split: list.splits)

lemma bboxStep_absent: "\<not> truthy bbox \<Longrightarrow> bboxStep bbox = Inr ([], [])"
  by (simp add: bboxStep_def)

lemma bboxStep_malformed:
  assumes "truthy (Some b)"
    and "length (split CHR '','' b) \<noteq> 4 \<or> list_ex (\<lambda>p. isNaN (Number p)) (split CHR '','' b)"
  shows "bboxStep (Some b) =
           Inl (Response 400
                  (ErrorMessage ''bbox must be four numeric values: minLng,minLat,maxLng,maxLat''))"
  using assms by (auto simp add: bboxStep_def list_ex_iff)

lemma bboxStep_wellformed:
  assumes "b \<noteq> []" and "map Number (split CHR '','' b) = [n1, n2, n3, n4]"
    and "\<not> list_ex isNaN [n1, n2, n3, n4]"
  shows "bboxStep (Some b) =
           Inr ([PNum n1, PNum n2, PNum n3, PNum n4], [ContainsEnvelope 1 2 3 4 4326 GeomColumn])"
  using assms by (simp add: bboxStep_def truthy_def)

lemma listCameras_unfiltered:
  assumes "reachable d" and "\<not> truthy bbox" and "\<not> truthy role"
  shows "listCameras d bbox role =
           ([\<lparr>selectList = listColumns, conditions = [], params = []\<rparr>],
            Response 200 (Rows (map listRow (catalog d))))"
proof -
  have "pool_query d \<lparr>selectList = listColumns, conditions = [], params = []\<rparr> =
          Inr (map listRow (filter (\<lambda>c. True) (catalog d)))"
    by (rule pool_query_filter)
       (simp_all add: assms selectRow_listColumns resolves_def select_lists_resolve)
  then show ?thesis
    using assms by (simp add: listCameras_def bboxStep_absent roleStep_def)
qed

lemma listCameras_role_only:
  assumes "reachable d" and "\<not> truthy bbox" and "r \<noteq> []"
  shows "snd (listCameras d bbox (Some r)) =
           Response 200 (Rows (map listRow (filter (\<lambda>c. cam_role c = r) (catalog d))))"
proof -
  have "pool_query d \<lparr>selectList = listColumns,
                       conditions = [RoleEquals (length [PText r])], params = [PText r]\<rparr> =
          Inr (map listRow (filter (\<lambda>c. cam_role c = r) (catalog d)))"
    by (rule pool_query_filter)
       (simp_all add: assms selectRow_listColumns placeholder_def resolves_def select_lists_resolve)
  then show ?thesis
    using assms by (simp add: listCameras_def bboxStep_absent roleStep_def truthy_def)
qed

text \<open>
  A viewport that passes the validation of line 119 adds the envelope condition of line
  127, with or without a role: the statement is sent, the store rejects it, and the
  handler answers 500.
\<close>

lemma listCameras_bbox_fails:
  assumes "b \<noteq> []" and "map Number (split CHR '','' b) = [n1, n2, n3, n4]"
    and "\<not> list_ex isNaN [n1, n2, n3, n4]"
  shows "snd (listCameras d (Some b) role) = Response 500 (ErrorMessage ''internal error'')"
    and "length (fst (listCameras d (Some b) role)) = 1"
proof -
  define pc0 where
    "pc0 = ([PNum n1, PNum n2, PNum n3, PNum n4], [ContainsEnvelope 1 2 3 4 4326 GeomColumn])"
  obtain ps conds where pc: "roleStep role pc0 = (ps, conds)"
    by (cases "roleStep role pc0")
  then have "ContainsEnvelope 1 2 3 4 4326 GeomColumn \<in> set conds"
    by (auto simp add: roleStep_def pc0_def Let_def split: if_splits)
  then have "ContainsEnvelope 1 2 3 4 4326 GeomColumn \<in>
      set (conditions \<lparr>selectList = listColumns, conditions = conds, params = ps\<rparr>)"
    by simp
  from pool_query_envelope_fails [OF this] obtain err where
    "pool_query d \<lparr>selectList = listColumns, conditions = conds, params = ps\<rparr> = Inl err" ..
  moreover have "bboxStep (Some b) = Inr pc0"
    unfolding pc0_def by (rule bboxStep_wellformed [OF assms])
  ultimately show "snd (listCameras d (Some b) role) = Response 500 (ErrorMessage ''internal error'')"
    and "length (fst (listCameras d (Some b) role)) = 1"
    by (simp_all add: listCameras_def pc Let_def)
qed

subsection \<open>Malformed viewports\<close>

text \<open>
  Claim C1, as the code has it. For every non-empty \<open>bbox\<close> string that does not split
  at its commas into exactly four pieces, or that has a piece which \<^verbatim>\<open>Number\<close> converts
  to NaN, the list handler answers 400 with the message of line 122 and sends no
  statement to the store, whatever the role.
\<close>

theorem bbox_malformed_rejected:
  assumes "bbox \<noteq> []"
    and "length (split CHR '','' bbox) \<noteq> 4 \<or>
         list_ex (\<lambda>p. isNaN (Number p)) (split CHR '','' bbox)"
  shows "listCameras d (Some bbox) role =
           ([], Response 400
                  (ErrorMessage ''bbox must be four numeric values: minLng,minLat,maxLng,maxLat''))"
proof -
  from assms(1) have "truthy (Some bbox)" by (simp add: truthy_def)
  from bboxStep_malformed [OF this assms(2)] show ?thesis
    by (simp add: listCameras_def)
qed

text \<open>Three pieces, and a piece that is not a number.\<close>

theorem bbox_malformed_rejected_witness:
  "''0,0,20'' \<noteq> [] \<and> length (split CHR '','' ''0,0,20'') \<noteq> 4 \<and>
   listCameras demoDb (Some ''0,0,20'') None =
     ([], Response 400
            (ErrorMessage ''bbox must be four numeric values: minLng,minLat,maxLng,maxLat'')) \<and>
   list_ex (\<lambda>p. isNaN (Number p)) (split CHR '','' ''0,north,20,30'') \<and>
   listCameras demoDb (Some ''0,north,20,30'') (Some ''traffic'') =
     ([], Response 400
            (ErrorMessage ''bbox must be four numeric values: minLng,minLat,maxLng,maxLat''))"
  using bbox_malformed_rejected [of "''0,0,20''" demoDb None]
    bbox_malformed_rejected [of "''0,north,20,30''" demoDb "Some ''traffic''"]
  by (simp add: Number_simps)

text \<open>
  Claim C1 as it is written fails on two inputs. The empty \<open>bbox\<close> splits into one piece,
  yet line 117 takes it as absent and the whole catalog is returned. In \<open>1,,2,3\<close> the
  second piece is empty, \<^verbatim>\<open>Number\<close> converts it to 0, no 400 is sent, and the statement
  sent to the store asks for the envelope from (1, 0) to (2, 3).
\<close>

theorem bbox_empty_or_blank_component_counterexample:
  "length (split CHR '','' []) \<noteq> 4 \<and>
   listCameras demoDb (Some []) None =
     ([\<lparr>selectList = listColumns, conditions = [], params = []\<rparr>],
      Response 200 (Rows [listRow cam1, listRow cam2])) \<and>
   split CHR '','' ''1,,2,3'' = [''1'', [], ''2'', ''3''] \<and>
   fst (listCameras demoDb (Some ''1,,2,3'') None) =
     [\<lparr>selectList = listColumns, conditions = [ContainsEnvelope 1 2 3 4 4326 GeomColumn],
       params = [PNum (Num 1), PNum (Num 0), PNum (Num 2), PNum (Num 3)]\<rparr>] \<and>
   snd (listCameras demoDb (Some ''1,,2,3'') None) \<noteq>
     Response 400
       (ErrorMessage ''bbox must be four numeric values: minLng,minLat,maxLng,maxLat'')"
  by (simp add: demo_simps Number_simps)

subsection \<open>The viewport predicate\<close>

text \<open>
  Claim C2 fails on the code. The viewport \<open>0,0,20,30\<close> is valid and \<open>cam1\<close> at (10, 20)
  lies strictly inside it, so the claim has \<open>cam1\<close> returned. The handler sends the
  statement with the envelope condition on the uncast column, the store rejects it, and
  the answer is 500 with no rows.
\<close>

theorem viewport_query_answers_500:
  "map Number (split CHR '','' ''0,0,20,30'') = [Num 0, Num 0, Num 20, Num 30] \<and>
   cam1 \<in> set (catalog demoDb) \<and> reachable demoDb \<and>
   0 < geom_lng cam1 \<and> geom_lng cam1 < 20 \<and> 0 < geom_lat cam1 \<and> geom_lat cam1 < 30 \<and>
   listCameras demoDb (Some ''0,0,20,30'') None =
     ([\<lparr>selectList = listColumns, conditions = [ContainsEnvelope 1 2 3 4 4326 GeomColumn],
        params = [PNum (Num 0), PNum (Num 0), PNum (Num 20), PNum (Num 30)]\<rparr>],
      Response 500 (ErrorMessage ''internal error''))"
  by (simp add: demo_simps Number_simps)

subsection \<open>The role filter\<close>

text \<open>
  Claim C4 fails on the code where both filters are given. With the viewport
  \<open>0,0,20,30\<close> and the role \<open>traffic\<close>, \<open>cam1\<close> satisfies both and the claim has it
  returned. The statement sent joins the envelope condition and the condition on the
  role, the role being parameter 5, but it carries the uncast column, the store rejects
  it, and the answer is 500. The role alone returns \<open>cam1\<close> and not \<open>cam3\<close>, whose role
  is \<open>Traffic\<close>; no filter returns the whole catalog.
\<close>

theorem role_and_viewport_query_answers_500:
  "cam_role cam1 = ''traffic'' \<and> cam_role cam3 = ''Traffic'' \<and>
   0 < geom_lng cam1 \<and> geom_lng cam1 < 20 \<and> 0 < geom_lat cam1 \<and> geom_lat cam1 < 30 \<and>
   listCameras caseDb (Some ''0,0,20,30'') (Some ''traffic'') =
     ([\<lparr>selectList = listColumns,
        conditions = [ContainsEnvelope 1 2 3 4 4326 GeomColumn, RoleEquals 5],
        params = [PNum (Num 0), PNum (Num 0), PNum (Num 20), PNum (Num 30), PText ''traffic'']\<rparr>],
      Response 500 (ErrorMessage ''internal error'')) \<and>
   snd (listCameras caseDb None (Some ''traffic'')) = Response 200 (Rows [listRow cam1]) \<and>
   snd (listCameras caseDb None None) =
     Response 200 (Rows [listRow cam1, listRow cam2, listRow cam3, listRow cam4])"
  by (simp add: demo_simps caseDb_def cam3_def cam4_def Number_simps)

subsection \<open>Empty filters\<close>

text \<open>
  Claim C10. An empty \<open>bbox\<close> is handled as an absent one, whatever the role, and an
  empty \<open>role\<close> as an absent one, whatever the viewport: no validation, no condition.
  With both empty and the store reachable, the handler sends the statement without
  conditions and returns the whole catalog with status 200.
\<close>

theorem empty_filters_ignored:
  assumes "reachable d"
  shows "listCameras d (Some []) role = listCameras d None role \<and>
         listCameras d bbox (Some []) = listCameras d bbox None \<and>
         listCameras d (Some []) (Some []) =
           ([\<lparr>selectList = listColumns, conditions = [], params = []\<rparr>],
            Response 200 (Rows (map listRow (catalog d))))"
proof -
  have e: "\<not> truthy (Some [])" by (simp add: truthy_def)
  have a: "bboxStep (Some []) = bboxStep None"
    by (simp add: bboxStep_def truthy_def)
  have b: "\<And>pc. roleStep (Some []) pc = roleStep None pc"
    by (simp add: roleStep_def truthy_def)
  have "listCameras d (Some []) role = listCameras d None role"
    by (simp add: listCameras_def a)
  moreover have "listCameras d bbox (Some []) = listCameras d bbox None"
    by (simp add: listCameras_def b split: sum.splits)
  ultimately show ?thesis
    using listCameras_unfiltered [OF assms e e] by simp
qed

text \<open>
  \<open>cam4\<close> has the empty role: the empty role filter returns all four cameras, not
  \<open>cam4\<close> alone.
\<close>

theorem empty_filters_ignored_witness:
  "reachable caseDb \<and> cam_role cam4 = [] \<and>
   listCameras caseDb (Some []) (Some ''traffic'') = listCameras caseDb None (Some ''traffic'') \<and>
   listCameras caseDb (Some ''0,0,20,30'') (Some []) = listCameras caseDb (Some ''0,0,20,30'') None \<and>
   listCameras caseDb (Some []) (Some []) =
     ([\<lparr>selectList = listColumns, conditions = [], params = []\<rparr>],
      Response 200 (Rows [listRow cam1, listRow cam2, listRow cam3, listRow cam4]))"
proof -
  have r: "reachable caseDb" by (simp add: caseDb_def)
  show ?thesis
    using empty_filters_ignored [OF r, of "Some ''traffic''" "Some ''0,0,20,30''"] r
    by (simp add: caseDb_def cam4_def)
qed

subsection \<open>The single-camera lookup and the columns of the list form\<close>

lemma selectRow_names:
  "selectRow items c = Some r \<Longrightarrow> map fst r = map snd items"
  by (induction items c arbitrary: r rule: selectRow.induct) (auto split: option.splits)

lemma selectRows_names:
  "selectRows q cs = Some rs \<Longrightarrow> r \<in> set rs \<Longrightarrow> map fst r = map snd (selectList q)"
proof (induction cs arbitrary: rs)
  case Nil
  then show ?case by simp
next
  case (Cons c cs)
  then show ?case
    by (auto split: option.splits if_splits dest: selectRow_names)
qed

text \<open>Every row the list handler returns has the column names of its select list.\<close>

lemma listCameras_rows_names:
  assumes "snd (listCameras d bbox role) = Response st (Rows rs)" and "r \<in> set rs"
  shows "map fst r = map snd listColumns"
proof (cases "bboxStep bbox")
  case (Inl resp)
  then have "resp = Response 400
      (ErrorMessage ''bbox must be four numeric values: minLng,minLat,maxLng,maxLat'')"
    by (auto simp add: bboxStep_def Let_def split: if_splits)
  with Inl assms(1) show ?thesis by (simp add: listCameras_def)
next
  case (Inr pc)
  obtain ps conds where pc: "roleStep role pc = (ps, conds)" by (cases "roleStep role pc")
  define q where "q = \<lparr>selectList = listColumns, conditions = conds, params = ps\<rparr>"
  from Inr pc assms(1) have "pool_query d q = Inr rs"
    by (auto simp add: listCameras_def q_def Let_def split: sum.splits)
  then have "selectRows q (catalog d) = Some rs"
    by (auto simp add: pool_query_def split: if_splits option.splits)
  from selectRows_names [OF this assms(2)] show ?thesis by (simp add: q_def)
qed

text \<open>\<^verbatim>\<open>id\<close> is the primary key: the rows with the id of a camera are that camera alone.\<close>

lemma filter_id_distinct:
  assumes "distinct (map cam_id cs)" and "c \<in> set cs"
  shows "filter (\<lambda>x. cam_id x = cam_id c) cs = [c]"
  using assms
proof (induction cs)
  case Nil
  then show ?case by simp
next
  case (Cons a cs)
  show ?case
  proof (cases "a = c")
    case True
    with Cons.prems(1) have "cam_id c \<notin> cam_id ` set cs" by simp
    then have "\<And>x. x \<in> set cs \<Longrightarrow> cam_id x \<noteq> cam_id c"
      by (metis imageI)
    then have "filter (\<lambda>x. cam_id x = cam_id c) cs = []"
      by (simp add: filter_empty_conv)
    with True show ?thesis by simp
  next
    case False
    with Cons.prems have "c \<in> set cs" and "cam_id a \<noteq> cam_id c" by auto
    with Cons show ?thesis by simp
  qed
qed

lemma pool_query_by_id:
  assumes "reachable d"
  shows "pool_query d
           \<lparr>selectList = singleColumns, conditions = [IdEquals (Suc 0)], params = [PText ident]\<rparr> =
           Inr (map singleRow (filter (\<lambda>c. cam_id c = ident) (catalog d)))"
  by (rule pool_query_filter)
     (simp_all add: assms selectRow_singleColumns placeholder_def resolves_def select_lists_resolve)

text \<open>
  Claim C8. With a reachable store whose ids are distinct, the lookup of the id of a
  camera of the catalog answers 200 with the single-form row of that camera, whose
  \<open>stream_url\<close> is the camera's; the lookup of an id no camera has answers 404
  (\<open>camera not found\<close>), not 500. No row returned by the list handler has a column
  \<open>stream_url\<close>, whatever the filters.
\<close>

theorem single_lookup_and_list_projection:
  assumes "reachable d"
  shows "(c \<in> set (catalog d) \<and> distinct (map cam_id (catalog d)) \<longrightarrow>
            snd (getCamera d (cam_id c)) = Response 200 (OneRow (singleRow c)) \<and>
            map_of (singleRow c) ''stream_url'' = Some (SqlText (stream_url c))) \<and>
         (ident \<notin> cam_id ` set (catalog d) \<longrightarrow>
            snd (getCamera d ident) = Response 404 (ErrorMessage ''camera not found'')) \<and>
         (snd (listCameras d bbox role) = Response st (Rows rs) \<and> r \<in> set rs \<longrightarrow>
            ''stream_url'' \<notin> fst ` set r)"
proof (intro conjI impI)
  assume a: "c \<in> set (catalog d) \<and> distinct (map cam_id (catalog d))"
  then have "filter (\<lambda>x. cam_id x = cam_id c) (catalog d) = [c]"
    by (simp add: filter_id_distinct)
  then show "snd (getCamera d (cam_id c)) = Response 200 (OneRow (singleRow c))"
    by (simp add: getCamera_def Let_def pool_query_by_id [OF assms])
  show "map_of (singleRow c) ''stream_url'' = Some (SqlText (stream_url c))"
    by (simp add: singleRow_def)
next
  assume "ident \<notin> cam_id ` set (catalog d)"
  then have "filter (\<lambda>c. cam_id c = ident) (catalog d) = []"
    by (auto simp add: filter_empty_conv)
  then show "snd (getCamera d ident) = Response 404 (ErrorMessage ''camera not found'')"
    by (simp add: getCamera_def Let_def pool_query_by_id [OF assms])
next
  assume "snd (listCameras d bbox role) = Response st (Rows rs) \<and> r \<in> set rs"
  then have "map fst r = map snd listColumns"
    using listCameras_rows_names by blast
  then have "fst ` set r = set (map snd listColumns)"
    by (metis set_map)
  then show "''stream_url'' \<notin> fst ` set r"
    by (simp add: listColumns_def)
qed

text \<open>The scenario of the specification: \<open>cam2\<close> is found, \<open>cam9\<close> is not.\<close>

theorem single_lookup_and_list_projection_witness:
  "reachable demoDb \<and> cam2 \<in> set (catalog demoDb) \<and> distinct (map cam_id (catalog demoDb)) \<and>
   snd (getCamera demoDb ''cam2'') = Response 200 (OneRow (singleRow cam2)) \<and>
   map_of (singleRow cam2) ''stream_url'' = Some (SqlText ''rtsp://10.0.0.2/sub'') \<and>
   ''cam9'' \<notin> cam_id ` set (catalog demoDb) \<and>
   snd (getCamera demoDb ''cam9'') = Response 404 (ErrorMessage ''camera not found'') \<and>
   snd (listCameras demoDb None (Some ''traffic'')) = Response 200 (Rows [listRow cam1]) \<and>
   listRow cam1 \<in> set [listRow cam1] \<and>
   ''stream_url'' \<notin> fst ` set (listRow cam1)"
proof -
  have r: "reachable demoDb" by (simp add: demoDb_def)
  have l: "snd (listCameras demoDb None (Some ''traffic'')) = Response 200 (Rows [listRow cam1])"
    by (simp add: demo_simps)
  have i: "cam_id cam2 = ''cam2''" by (simp add: cam2_def)
  show ?thesis
    using single_lookup_and_list_projection
      [OF r, of cam2 "''cam9''" None "Some ''traffic''" 200 "[listRow cam1]" "listRow cam1"] r l i
    by (simp add: demoDb_def cam1_def cam2_def)
qed

section \<open>Properties of the telemetry write API\<close>

subsection \<open>What each handler does to the instruments\<close>

lemma valueOf_upd_same: "valueOf (m(k \<mapsto> v)) k = v"
  by (simp add: valueOf_def)

lemma valueOf_upd_other: "k' \<noteq> k \<Longrightarrow> valueOf (m(k \<mapsto> v)) k' = valueOf m k'"
  by (simp add: valueOf_def)


lemma viewStart_accepted:
  assumes "truthyJson (camera_id req)"
  shows "viewStart lib s req =
           (s\<lparr>viewStartCounter :=
                 (viewStartCounter s)(startKey lib (geoReader s) req \<mapsto>
                    valueOf (viewStartCounter s) (startKey lib (geoReader s) req) + 1),
               viewersGauge := gaugeInc (viewersGauge s) (gaugeKey lib (geoReader s) req)\<rparr>,
            Sent (Response 204 NoBody))"
  using assms by (simp add: viewStart_def counterInc_def startKey_def gaugeKey_def Let_def)

lemma viewEnd_accepted:
  assumes "truthyJson (camera_id req)"
  shows "viewEnd lib s req =
           (s\<lparr>viewersGauge := gaugeDec (viewersGauge s) (gaugeKey lib (geoReader s) req)\<rparr>,
            Sent (Response 204 NoBody))"
  using assms by (simp add: viewEnd_def gaugeKey_def Let_def)


lemma rejected:
  assumes "\<not> truthyJson (camera_id req)"
  shows "viewStart lib s req = (s, Sent (Response 400 (ErrorMessage ''camera_id is required'')))"
    and "heartbeat lib s req = (s, Sent (Response 400 (ErrorMessage ''camera_id is required'')))"
    and "viewEnd lib s req = (s, Sent (Response 400 (ErrorMessage ''camera_id is required'')))"
  using assms by (simp_all add: viewStart_def heartbeat_def viewEnd_def)

lemma heartbeat_gauge: "viewersGauge (fst (heartbeat lib s req)) = viewersGauge s"
  by (simp add: heartbeat_def counterAdd_def Let_def)

lemma handle_geoReader: "geoReader (fst (handle lib s ev)) = geoReader s"
  by (cases ev)
     (simp_all add: viewStart_def heartbeat_def viewEnd_def counterAdd_def Let_def)

lemma handle_gauge:
  "valueOf (viewersGauge (fst (handle lib s ev))) k =
     valueOf (viewersGauge s) k
       + (if startsFor lib (geoReader s) k ev then 1 else 0)
       - (if endsFor lib (geoReader s) k ev then 1 else 0)"
proof (cases ev)
  case (ViewStart req)
  show ?thesis
  proof (cases "truthyJson (camera_id req)")
    case True
    then show ?thesis
      using ViewStart
      by (simp add: viewStart_accepted gaugeInc_def valueOf_upd_same valueOf_upd_other)
  next
    case False
    then show ?thesis using ViewStart by (simp add: rejected)
  qed
next
  case (Heartbeat req)
  then show ?thesis by (simp add: heartbeat_gauge)
next
  case (ViewEnd req)
  show ?thesis
  proof (cases "truthyJson (camera_id req)")
    case True
    then show ?thesis
      using ViewEnd
      by (simp add: viewEnd_accepted gaugeDec_def valueOf_upd_same valueOf_upd_other)
  next
    case False
    then show ?thesis using ViewEnd by (simp add: rejected)
  qed
qed

lemma run_gauge:
  "valueOf (viewersGauge (run lib s evs)) k =
     valueOf (viewersGauge s) k
       + of_nat (length (filter (startsFor lib (geoReader s) k) evs))
       - of_nat (length (filter (endsFor lib (geoReader s) k) evs))"
proof (induction evs arbitrary: s)
  case Nil
  then show ?case by simp
next
  case (Cons ev evs)
  show ?case
    by (simp add: Cons.IH handle_geoReader handle_gauge)
qed

lemmas telemetry_simps =
  viewStart_def heartbeat_def viewEnd_def counterInc_def counterAdd_def gaugeInc_def gaugeDec_def
  valueOf_def numberOf_def toDouble_zero toDouble_one toDouble_numeral toDouble_minus_numeral
  gaugeKey_def startKey_def getCountry_def getClientIp_def orElse_def parseUA_def normalise_def
  knownBrowsers_def knownOS_def freshServer_def demoLibs_def viewer_def

subsection \<open>Starts and ends\<close>

text \<open>
  Claim C3. An accepted view-start adds exactly 1 to the view-start counter at the tuple
  \<open>(camera, country, browser, os)\<close> of the request and exactly 1 to the gauge at its
  pair \<open>(camera, country)\<close>; an accepted view-end subtracts exactly 1 from the gauge at
  that pair. For every sequence of telemetry calls and every pair \<open>k\<close>: when as many
  accepted view-starts as accepted view-ends of the sequence resolve to \<open>k\<close>, the gauge
  at \<open>k\<close> ends at the value it started from, whatever other calls are interleaved.
\<close>

theorem view_start_end_balance:
  "(truthyJson (camera_id req) \<longrightarrow>
      valueOf (viewStartCounter (fst (viewStart lib s req))) (startKey lib (geoReader s) req) =
        valueOf (viewStartCounter s) (startKey lib (geoReader s) req) + 1 \<and>
      valueOf (viewersGauge (fst (viewStart lib s req))) (gaugeKey lib (geoReader s) req) =
        valueOf (viewersGauge s) (gaugeKey lib (geoReader s) req) + 1 \<and>
      valueOf (viewersGauge (fst (viewEnd lib s req))) (gaugeKey lib (geoReader s) req) =
        valueOf (viewersGauge s) (gaugeKey lib (geoReader s) req) - 1) \<and>
   (length (filter (startsFor lib (geoReader s) k) evs) =
      length (filter (endsFor lib (geoReader s) k) evs) \<longrightarrow>
      valueOf (viewersGauge (run lib s evs)) k = valueOf (viewersGauge s) k)"
proof (intro conjI impI)
  assume t: "truthyJson (camera_id req)"
  show "valueOf (viewStartCounter (fst (viewStart lib s req))) (startKey lib (geoReader s) req) =
        valueOf (viewStartCounter s) (startKey lib (geoReader s) req) + 1"
    by (simp add: viewStart_accepted [OF t] valueOf_upd_same)
  show "valueOf (viewersGauge (fst (viewStart lib s req))) (gaugeKey lib (geoReader s) req) =
        valueOf (viewersGauge s) (gaugeKey lib (geoReader s) req) + 1"
    by (simp add: viewStart_accepted [OF t] gaugeInc_def valueOf_upd_same)
  show "valueOf (viewersGauge (fst (viewEnd lib s req))) (gaugeKey lib (geoReader s) req) =
        valueOf (viewersGauge s) (gaugeKey lib (geoReader s) req) - 1"
    by (simp add: viewEnd_accepted [OF t] gaugeDec_def valueOf_upd_same)
next
  assume "length (filter (startsFor lib (geoReader s) k) evs) =
          length (filter (endsFor lib (geoReader s) k) evs)"
  then show "valueOf (viewersGauge (run lib s evs)) k = valueOf (viewersGauge s) k"
    by (simp add: run_gauge)
qed

text \<open>Two starts and two ends for \<open>cam1\<close>, interleaved with calls for \<open>cam2\<close>.\<close>

theorem view_start_end_balance_witness:
  "truthyJson (camera_id (viewer (Some (JStr ''cam1'')) None)) \<and>
   valueOf (viewStartCounter (fst (viewStart demoLibs freshServer (viewer (Some (JStr ''cam1'')) None))))
     (''cam1'', ''ZZ'', ''Chrome'', ''Linux'') = 1 \<and>
   valueOf (viewersGauge (fst (viewStart demoLibs freshServer (viewer (Some (JStr ''cam1'')) None))))
     (''cam1'', ''ZZ'') = 1 \<and>
   valueOf (viewersGauge (fst (viewEnd demoLibs freshServer (viewer (Some (JStr ''cam1'')) None))))
     (''cam1'', ''ZZ'') = - 1 \<and>
   length (filter (startsFor demoLibs None (''cam1'', ''ZZ'')) demoCalls) = 2 \<and>
   length (filter (endsFor demoLibs None (''cam1'', ''ZZ'')) demoCalls) = 2 \<and>
   valueOf (viewersGauge (run demoLibs freshServer demoCalls)) (''cam1'', ''ZZ'') = 0"
proof -
  have t: "truthyJson (camera_id (viewer (Some (JStr ''cam1'')) None))"
    by (simp add: viewer_def)
  have g: "geoReader freshServer = None"
    by (simp add: freshServer_def)
  have k: "gaugeKey demoLibs None (viewer (Some (JStr ''cam1'')) None) = (''cam1'', ''ZZ'')"
    and k2: "gaugeKey demoLibs None (viewer (Some (JStr ''cam2'')) None) = (''cam2'', ''ZZ'')"
    and k4: "startKey demoLibs None (viewer (Some (JStr ''cam1'')) None) =
          (''cam1'', ''ZZ'', ''Chrome'', ''Linux'')"
    by (simp_all add: gaugeKey_def startKey_def demoLibs_def viewer_def getCountry_def
        parseUA_def normalise_def orElse_def knownBrowsers_def knownOS_def)
  have z: "valueOf (viewersGauge freshServer) (''cam1'', ''ZZ'') = 0"
    and z4: "valueOf (viewStartCounter freshServer) (''cam1'', ''ZZ'', ''Chrome'', ''Linux'') = 0"
    by (simp_all add: valueOf_def freshServer_def)
  have n: "length (filter (startsFor demoLibs None (''cam1'', ''ZZ'')) demoCalls) = 2"
    and m: "length (filter (endsFor demoLibs None (''cam1'', ''ZZ'')) demoCalls) = 2"
    by (simp_all add: demoCalls_def gaugeKey_def demoLibs_def viewer_def getCountry_def)
  show ?thesis
    using view_start_end_balance [of "viewer (Some (JStr ''cam1'')) None" demoLibs freshServer
        "(''cam1'', ''ZZ'')" demoCalls]
    by (simp add: t g k k4 z z4 n m)
qed

subsection \<open>No floor at zero\<close>

text \<open>
  Claim C7. An accepted view-end answers 204 and subtracts 1 from the gauge at the pair
  of the request, whatever the value there; when the value is 0 (the pair at zero, or
  never seen) the gauge at that pair becomes \<open>-1\<close>.
\<close>

theorem view_end_unmatched_goes_negative:
  assumes "truthyJson (camera_id req)"
  shows "snd (viewEnd lib s req) = Sent (Response 204 NoBody) \<and>
         valueOf (viewersGauge (fst (viewEnd lib s req))) (gaugeKey lib (geoReader s) req) =
           valueOf (viewersGauge s) (gaugeKey lib (geoReader s) req) - 1 \<and>
         (valueOf (viewersGauge s) (gaugeKey lib (geoReader s) req) = 0 \<longrightarrow>
            viewersGauge (fst (viewEnd lib s req)) (gaugeKey lib (geoReader s) req) = Some (- 1))"
  by (simp add: viewEnd_accepted [OF assms] gaugeDec_def valueOf_upd_same)

text \<open>A view-end on a server that has recorded nothing.\<close>

theorem view_end_unmatched_goes_negative_witness:
  "truthyJson (camera_id (viewer (Some (JStr ''cam1'')) None)) \<and>
   viewersGauge freshServer (''cam1'', ''ZZ'') = None \<and>
   valueOf (viewersGauge freshServer) (''cam1'', ''ZZ'') = 0 \<and>
   snd (viewEnd demoLibs freshServer (viewer (Some (JStr ''cam1'')) None)) =
     Sent (Response 204 NoBody) \<and>
   viewersGauge (fst (viewEnd demoLibs freshServer (viewer (Some (JStr ''cam1'')) None)))
     (''cam1'', ''ZZ'') = Some (- 1)"
proof -
  have t: "truthyJson (camera_id (viewer (Some (JStr ''cam1'')) None))"
    by (simp add: viewer_def)
  show ?thesis
    using view_end_unmatched_goes_negative [OF t, of demoLibs freshServer]
    by (simp add: telemetry_simps)
qed

subsection \<open>Watched seconds\<close>




subsection \<open>Which telemetry calls are rejected\<close>





subsection \<open>Browser and OS labels\<close>

text \<open>
  Claim C5. For every user-agent parser and every request (with or without the header),
  \<^verbatim>\<open>parseUA\<close> returns a browser among Chrome, Firefox, Safari, Edge, Other and an OS
  among Windows, macOS, iOS, Android, Linux, Other; normalising a returned label again
  returns it unchanged; and every tuple that view-start adds to the view-start counter
  carries a browser and an OS of these sets.
\<close>

theorem ua_labels_closed:
  "browser (parseUA parser req) \<in> set (knownBrowsers @ [''Other'']) \<and>
   os (parseUA parser req) \<in> set (knownOS @ [''Other'']) \<and>
   normalise knownBrowsers (Some (browser (parseUA parser req))) = browser (parseUA parser req) \<and>
   normalise knownOS (Some (os (parseUA parser req))) = os (parseUA parser req) \<and>
   dom (viewStartCounter (fst (viewStart lib s req))) \<subseteq>
     dom (viewStartCounter s) \<union>
     {k. fst (snd (snd k)) \<in> set (knownBrowsers @ [''Other'']) \<and>
         snd (snd (snd k)) \<in> set (knownOS @ [''Other''])}"
proof -
  have b: "\<And>n. normalise knownBrowsers n \<in> set (knownBrowsers @ [''Other''])"
    by (simp add: normalise_def Let_def)
  have o: "\<And>n. normalise knownOS n \<in> set (knownOS @ [''Other''])"
    by (simp add: normalise_def Let_def)
  have ib: "\<And>n. normalise knownBrowsers (Some (normalise knownBrowsers n)) = normalise knownBrowsers n"
    by (simp add: normalise_def Let_def orElse_def knownBrowsers_def)
  have io: "\<And>n. normalise knownOS (Some (normalise knownOS n)) = normalise knownOS n"
    by (simp add: normalise_def Let_def orElse_def knownOS_def)
  have d: "dom (viewStartCounter (fst (viewStart lib s req))) \<subseteq>
     dom (viewStartCounter s) \<union>
     {k. fst (snd (snd k)) \<in> set (knownBrowsers @ [''Other'']) \<and>
         snd (snd (snd k)) \<in> set (knownOS @ [''Other''])}"
  proof (cases "truthyJson (camera_id req)")
    case True
    have "fst (snd (snd (startKey lib (geoReader s) req))) \<in> set (knownBrowsers @ [''Other''])"
      and "snd (snd (snd (startKey lib (geoReader s) req))) \<in> set (knownOS @ [''Other''])"
      using b o by (simp_all add: startKey_def parseUA_def Let_def)
    then show ?thesis
      by (auto simp add: viewStart_accepted [OF True])
  next
    case False
    then show ?thesis by (simp add: rejected)
  qed
  show ?thesis
    using b o ib io d by (simp add: parseUA_def Let_def)
qed

end
